theory Spec2Isabelle
  imports Complex_Main
begin

section \<open>FlexOrder: strategies, decorators and the checkout facade\<close>

text \<open>
  A shallow embedding of \<^verbatim>\<open>checkout_monolitico.py\<close>. Each class of the source is a
  datatype constructor or a record, each method a function named as in the source.

  Numbers. A Python float is a value of \<open>pyfloat\<close>: a finite number, one of the two
  infinities, or NaN. Arithmetic between finite numbers is exact: rounding, overflow and
  the sign of zero are not part of the model.

  Console output. The \<^verbatim>\<open>print\<close> calls of the source are not modelled. The two
  subsystems behind the facade do nothing but print, so each is modelled by the list of
  the calls it has received.
\<close>

subsection \<open>Python floats\<close>

datatype pyfloat = Finito real | MaisInf | MenosInf | NaN

text \<open>
  The operators the source applies to floats. NaN is contagious and compares false with
  everything, itself included; the infinities follow IEEE 754, where \<open>inf - inf\<close> and
  \<open>0 * inf\<close> are NaN. \<open>x > y\<close> is \<open>y < x\<close>.
\<close>

instantiation pyfloat :: "{plus, uminus, minus, times, ord}"
begin

fun plus_pyfloat :: "pyfloat \<Rightarrow> pyfloat \<Rightarrow> pyfloat" where
  "plus_pyfloat NaN y = NaN"
| "plus_pyfloat x NaN = NaN"
| "plus_pyfloat (Finito a) (Finito b) = Finito (a + b)"
| "plus_pyfloat MaisInf MenosInf = NaN"
| "plus_pyfloat MenosInf MaisInf = NaN"
| "plus_pyfloat MaisInf y = MaisInf"
| "plus_pyfloat x MaisInf = MaisInf"
| "plus_pyfloat MenosInf y = MenosInf"
| "plus_pyfloat x MenosInf = MenosInf"

fun uminus_pyfloat :: "pyfloat \<Rightarrow> pyfloat" where
  "uminus_pyfloat (Finito a) = Finito (- a)"
| "uminus_pyfloat MaisInf = MenosInf"
| "uminus_pyfloat MenosInf = MaisInf"
| "uminus_pyfloat NaN = NaN"

definition minus_pyfloat :: "pyfloat \<Rightarrow> pyfloat \<Rightarrow> pyfloat" where
  "minus_pyfloat x y = x + (- y)"

fun times_pyfloat :: "pyfloat \<Rightarrow> pyfloat \<Rightarrow> pyfloat" where
  "times_pyfloat NaN y = NaN"
| "times_pyfloat x NaN = NaN"
| "times_pyfloat (Finito a) (Finito b) = Finito (a * b)"
| "times_pyfloat (Finito a) MaisInf =
     (if a = 0 then NaN else if 0 < a then MaisInf else MenosInf)"
| "times_pyfloat (Finito a) MenosInf =
     (if a = 0 then NaN else if 0 < a then MenosInf else MaisInf)"
| "times_pyfloat MaisInf (Finito b) =
     (if b = 0 then NaN else if 0 < b then MaisInf else MenosInf)"
| "times_pyfloat MenosInf (Finito b) =
     (if b = 0 then NaN else if 0 < b then MenosInf else MaisInf)"
| "times_pyfloat MaisInf MaisInf = MaisInf"
| "times_pyfloat MaisInf MenosInf = MenosInf"
| "times_pyfloat MenosInf MaisInf = MenosInf"
| "times_pyfloat MenosInf MenosInf = MaisInf"

fun less_pyfloat :: "pyfloat \<Rightarrow> pyfloat \<Rightarrow> bool" where
  "less_pyfloat NaN y = False"
| "less_pyfloat x NaN = False"
| "less_pyfloat (Finito a) (Finito b) = (a < b)"
| "less_pyfloat x MenosInf = False"
| "less_pyfloat MaisInf y = False"
| "less_pyfloat MenosInf y = True"
| "less_pyfloat x MaisInf = True"

fun less_eq_pyfloat :: "pyfloat \<Rightarrow> pyfloat \<Rightarrow> bool" where
  "less_eq_pyfloat NaN y = False"
| "less_eq_pyfloat x NaN = False"
| "less_eq_pyfloat (Finito a) (Finito b) = (a \<le> b)"
| "less_eq_pyfloat MenosInf y = True"
| "less_eq_pyfloat x MaisInf = True"
| "less_eq_pyfloat x MenosInf = False"
| "less_eq_pyfloat MaisInf y = False"

instance ..

end

subsection \<open>Python built-ins used by the descriptions\<close>

text \<open>\<^verbatim>\<open>str(n)\<close> for a non-negative integer: its decimal digits.\<close>

definition digito :: "nat \<Rightarrow> char" where
  "digito n = ''0123456789'' ! (n mod 10)"

fun str_nat :: "nat \<Rightarrow> string" where
  "str_nat n = (if n < 10 then [digito n] else str_nat (n div 10) @ [digito n])"

declare str_nat.simps [simp del]

text \<open>
  \<^verbatim>\<open>format(x, ".2f")\<close>: a finite value is rounded to two decimals, a tie going to
  the even neighbour, and the sign is kept (also in front of a zero result); the other
  floats print as \<^verbatim>\<open>inf\<close>, \<^verbatim>\<open>-inf\<close> and \<^verbatim>\<open>nan\<close>.
\<close>

definition arredonda_par :: "real \<Rightarrow> nat" where
  "arredonda_par y =
     (let f = nat \<lfloor>y\<rfloor>; r = y - real f
      in if r < 1 / 2 then f else if 1 / 2 < r then f + 1
         else if even f then f else f + 1)"

fun fmt_2f :: "pyfloat \<Rightarrow> string" where
  "fmt_2f (Finito x) =
     (let n = arredonda_par (\<bar>x\<bar> * 100)
      in (if x < 0 then ''-'' else '''') @ str_nat (n div 100) @ ''.''
           @ [digito (n div 10), digito n])"
| "fmt_2f MaisInf = ''inf''"
| "fmt_2f MenosInf = ''-inf''"
| "fmt_2f NaN = ''nan''"

subsection \<open>Strategy: payment\<close>

datatype EstrategiaPagamento =
    PagamentoPix
  | PagamentoCredito pyfloat
  | PagamentoMana

text \<open>The default of \<^verbatim>\<open>PagamentoCredito.__init__\<close>: \<^verbatim>\<open>limite = 1000.0\<close>.\<close>

definition PagamentoCredito_padrao :: EstrategiaPagamento where
  "PagamentoCredito_padrao = PagamentoCredito (Finito 1000.0)"

fun processar :: "EstrategiaPagamento \<Rightarrow> pyfloat \<Rightarrow> bool" where
  "processar PagamentoPix valor = True"
| "processar (PagamentoCredito limite) valor = (if valor < limite then True else False)"
| "processar PagamentoMana valor = True"

fun get_desconto :: "EstrategiaPagamento \<Rightarrow> pyfloat" where
  "get_desconto PagamentoPix = Finito 0.05"
| "get_desconto (PagamentoCredito limite) = Finito 0.0"
| "get_desconto PagamentoMana = Finito 0.0"

subsection \<open>Strategy: shipping\<close>

datatype EstrategiaFrete = FreteNormal | FreteExpresso | FreteTeletransporte

fun calcular :: "EstrategiaFrete \<Rightarrow> pyfloat \<Rightarrow> pyfloat" where
  "calcular FreteNormal valor_pedido = valor_pedido * Finito 0.05"
| "calcular FreteExpresso valor_pedido = valor_pedido * Finito 0.10 + Finito 15.00"
| "calcular FreteTeletransporte valor_pedido = Finito 50.00"

subsection \<open>Decorator: the order component\<close>

text \<open>
  An item is a Python dict. Its values are strings (\<^verbatim>\<open>'nome'\<close>) or numbers
  (\<^verbatim>\<open>'valor'\<close>); reading a missing key raises \<^verbatim>\<open>KeyError\<close>, adding a string to
  a number raises \<^verbatim>\<open>TypeError\<close>.
\<close>

datatype pyval = PyStr string | PyFloat pyfloat

type_synonym item = "string \<rightharpoonup> pyval"

datatype erro = KeyError | TypeError

text \<open>\<^verbatim>\<open>sum(item['valor'] for item in itens)\<close>: from 0, left to right.\<close>

fun soma_valores :: "pyfloat \<Rightarrow> item list \<Rightarrow> erro + pyfloat" where
  "soma_valores acc [] = Inr acc"
| "soma_valores acc (it # its) =
     (case it ''valor'' of
        None \<Rightarrow> Inl KeyError
      | Some (PyStr s) \<Rightarrow> Inl TypeError
      | Some (PyFloat v) \<Rightarrow> soma_valores (acc + v) its)"

text \<open>
  \<^verbatim>\<open>PedidoBase\<close> keeps its fields \<^verbatim>\<open>itens\<close> and \<^verbatim>\<open>valor_base\<close>; a decorator
  keeps the component it wraps, \<^verbatim>\<open>TaxaEmbalagemPresente\<close> also its \<^verbatim>\<open>taxa\<close>.
  \<^verbatim>\<open>DecoradorPedido\<close> implements both abstract methods, so it can be instantiated.
\<close>

datatype ComponentePedido =
    PedidoBase "item list" pyfloat
  | DecoradorPedido ComponentePedido
  | DescontoPedidoGrande ComponentePedido
  | TaxaEmbalagemPresente ComponentePedido pyfloat

text \<open>\<^verbatim>\<open>PedidoBase.__init__\<close>.\<close>

definition PedidoBase_init :: "item list \<Rightarrow> erro + ComponentePedido" where
  "PedidoBase_init itens =
     (case soma_valores (Finito 0) itens of
        Inl e \<Rightarrow> Inl e
      | Inr valor_base \<Rightarrow> Inr (PedidoBase itens valor_base))"

text \<open>The default of \<^verbatim>\<open>TaxaEmbalagemPresente.__init__\<close>: \<^verbatim>\<open>taxa = 5.00\<close>.\<close>

definition TaxaEmbalagemPresente_padrao :: "ComponentePedido \<Rightarrow> ComponentePedido" where
  "TaxaEmbalagemPresente_padrao pedido = TaxaEmbalagemPresente pedido (Finito 5.00)"

fun calcular_valor :: "ComponentePedido \<Rightarrow> pyfloat" where
  "calcular_valor (PedidoBase itens valor_base) = valor_base"
| "calcular_valor (DecoradorPedido pedido) = calcular_valor pedido"
| "calcular_valor (DescontoPedidoGrande pedido) =
     (let valor = calcular_valor pedido
      in if valor > Finito 500 then valor * Finito 0.90 else valor)"
| "calcular_valor (TaxaEmbalagemPresente pedido taxa) =
     (let valor = calcular_valor pedido in valor + taxa)"

fun get_descricao :: "ComponentePedido \<Rightarrow> string" where
  "get_descricao (PedidoBase itens valor_base) =
     ''Pedido com '' @ str_nat (length itens) @ '' itens''"
| "get_descricao (DecoradorPedido pedido) = get_descricao pedido"
| "get_descricao (DescontoPedidoGrande pedido) =
     (let valor = calcular_valor pedido
      in if valor > Finito 500
         then get_descricao pedido @ '' + Desconto Pedido Grande (10%)''
         else get_descricao pedido)"
| "get_descricao (TaxaEmbalagemPresente pedido taxa) =
     get_descricao pedido @ '' + Embalagem Presente (R$'' @ fmt_2f taxa @ '')''"

subsection \<open>The order: context of both strategies\<close>

record Pedido =
  componente_pedido :: ComponentePedido
  estrategia_pagamento :: EstrategiaPagamento
  estrategia_frete :: EstrategiaFrete

definition calcular_valor_com_desconto_pagamento :: "Pedido \<Rightarrow> pyfloat" where
  "calcular_valor_com_desconto_pagamento self =
     (let valor = calcular_valor (componente_pedido self);
          desconto = get_desconto (estrategia_pagamento self)
      in if desconto > Finito 0 then valor * (Finito 1 - desconto) else valor)"

definition calcular_frete :: "Pedido \<Rightarrow> pyfloat" where
  "calcular_frete self =
     (let valor_com_desconto = calcular_valor_com_desconto_pagamento self
      in calcular (estrategia_frete self) valor_com_desconto)"

definition calcular_valor_final :: "Pedido \<Rightarrow> pyfloat" where
  "calcular_valor_final self =
     (let valor_com_desconto = calcular_valor_com_desconto_pagamento self;
          custo_frete = calcular_frete self
      in valor_com_desconto + custo_frete)"

definition processar_pagamento :: "Pedido \<Rightarrow> bool" where
  "processar_pagamento self =
     (let valor_final = calcular_valor_final self
      in processar (estrategia_pagamento self) valor_final)"

definition Pedido_get_descricao :: "Pedido \<Rightarrow> string" where
  "Pedido_get_descricao self = get_descricao (componente_pedido self)"

subsection \<open>Facade\<close>

text \<open>
  \<^verbatim>\<open>SistemaEstoque\<close> and \<^verbatim>\<open>GeradorNotaFiscal\<close> are stateless printers. Each is
  modelled by the calls made to it so far, oldest first, with their arguments.
\<close>

type_synonym SistemaEstoque = "Pedido list"

type_synonym GeradorNotaFiscal = "(Pedido \<times> pyfloat) list"

definition registrar_pedido :: "SistemaEstoque \<Rightarrow> Pedido \<Rightarrow> SistemaEstoque" where
  "registrar_pedido self pedido = self @ [pedido]"

definition emitir_nota ::
  "GeradorNotaFiscal \<Rightarrow> Pedido \<Rightarrow> pyfloat \<Rightarrow> GeradorNotaFiscal" where
  "emitir_nota self pedido valor_final = self @ [(pedido, valor_final)]"

record CheckoutFacade =
  sistema_estoque :: SistemaEstoque
  gerador_nota :: GeradorNotaFiscal

definition CheckoutFacade_init :: CheckoutFacade where
  "CheckoutFacade_init = \<lparr>sistema_estoque = [], gerador_nota = []\<rparr>"

definition concluir_transacao :: "CheckoutFacade \<Rightarrow> Pedido \<Rightarrow> bool \<times> CheckoutFacade" where
  "concluir_transacao self pedido =
     (let valor_final = calcular_valor_final pedido
      in if processar_pagamento pedido
         then (let self1 = self\<lparr>sistema_estoque := registrar_pedido (sistema_estoque self) pedido\<rparr>;
                   self2 = self1\<lparr>gerador_nota := emitir_nota (gerador_nota self1) pedido valor_final\<rparr>
               in (True, self2))
         else (False, self))"

subsection \<open>The demonstration's scenarios\<close>

definition itens1 :: "item list" where
  "itens1 =
     [[''nome'' \<mapsto> PyStr ''Capa da Invisibilidade'', ''valor'' \<mapsto> PyFloat (Finito 150.0)],
      [''nome'' \<mapsto> PyStr (''Po'' @ [CHR 0xC3, CHR 0xA7, CHR 0xC3, CHR 0xA3] @ ''o de Voo''),
       ''valor'' \<mapsto> PyFloat (Finito 80.0)]]"

definition pedido1 :: "erro + Pedido" where
  "pedido1 =
     (case PedidoBase_init itens1 of
        Inl e \<Rightarrow> Inl e
      | Inr pedido_base1 \<Rightarrow>
          Inr \<lparr>componente_pedido = pedido_base1,
               estrategia_pagamento = PagamentoPix,
               estrategia_frete = FreteNormal\<rparr>)"

definition itens2 :: "item list" where
  "itens2 =
     [[''nome'' \<mapsto> PyStr (''Cristal M'' @ [CHR 0xC3, CHR 0xA1] @ ''gico''),
       ''valor'' \<mapsto> PyFloat (Finito 600.0)]]"

definition pedido2 :: "erro + Pedido" where
  "pedido2 =
     (case PedidoBase_init itens2 of
        Inl e \<Rightarrow> Inl e
      | Inr pedido_base2 \<Rightarrow>
          (let pedido_decorado2 = DescontoPedidoGrande pedido_base2;
               pedido_decorado2 = TaxaEmbalagemPresente_padrao pedido_decorado2
           in Inr \<lparr>componente_pedido = pedido_decorado2,
                    estrategia_pagamento = PagamentoCredito_padrao,
                    estrategia_frete = FreteExpresso\<rparr>))"

text \<open>
  Orders for the examples below: a single item of finite value \<open>v\<close>, and the base order
  that \<^verbatim>\<open>PedidoBase\<close> builds from it.
\<close>

definition itens_de :: "real \<Rightarrow> item list" where
  "itens_de v = [[''nome'' \<mapsto> PyStr ''item'', ''valor'' \<mapsto> PyFloat (Finito v)]]"

definition pedido_de :: "real \<Rightarrow> ComponentePedido" where
  "pedido_de v = PedidoBase (itens_de v) (Finito v)"

section \<open>Properties\<close>

subsection \<open>Auxiliary facts\<close>

lemma pyfloat_less_irrefl: "\<not> (x::pyfloat) < x"
  by (cases x) simp_all

lemma itens1_soma: "PedidoBase_init itens1 = Inr (PedidoBase itens1 (Finito 230))"
  by (simp add: PedidoBase_init_def itens1_def)

lemma itens2_soma: "PedidoBase_init itens2 = Inr (PedidoBase itens2 (Finito 600))"
  by (simp add: PedidoBase_init_def itens2_def)

lemma PedidoBase_init_vazio: "PedidoBase_init [] = Inr (PedidoBase [] (Finito 0))"
  by (simp add: PedidoBase_init_def)

lemma PedidoBase_init_infinito:
  "PedidoBase_init [[''valor'' \<mapsto> PyFloat MaisInf]] =
     Inr (PedidoBase [[''valor'' \<mapsto> PyFloat MaisInf]] MaisInf)"
  by (simp add: PedidoBase_init_def)

lemma PedidoBase_init_itens_de: "PedidoBase_init (itens_de v) = Inr (pedido_de v)"
  by (simp add: PedidoBase_init_def itens_de_def pedido_de_def)

lemma calcular_valor_pedido_de [simp]: "calcular_valor (pedido_de v) = Finito v"
  by (simp add: pedido_de_def)

lemma str_nat_digito: "n < 10 \<Longrightarrow> str_nat n = [digito n]"
  by (simp add: str_nat.simps)

lemma get_descricao_pedido_de [simp]: "get_descricao (pedido_de v) = ''Pedido com 1 itens''"
  by (simp add: pedido_de_def itens_de_def str_nat_digito digito_def)

subsection \<open>The order's totals\<close>

text \<open>
  C1. For every order, whatever its component and its two strategies,
  \<^verbatim>\<open>calcular_valor_final\<close> is \<^verbatim>\<open>calcular_valor_com_desconto_pagamento\<close> plus
  \<^verbatim>\<open>calcular_frete\<close>, and \<^verbatim>\<open>calcular_frete\<close> is the shipping strategy's cost of the
  value after the payment discount, not of the component's undiscounted value.
\<close>

theorem valor_final_desconto_mais_frete:
  "calcular_valor_final p = calcular_valor_com_desconto_pagamento p + calcular_frete p \<and>
   calcular_frete p =
     calcular (estrategia_frete p) (calcular_valor_com_desconto_pagamento p)"
  by (simp add: calcular_valor_final_def calcular_frete_def)

text \<open>
  The first scenario of the demonstration (230 paid by PIX, normal shipping): the
  shipping cost is 5% of 218.5, where 5% of the undiscounted 230 would be 11.5.
\<close>

theorem valor_final_desconto_mais_frete_witness:
  "pedido1 = Inr \<lparr>componente_pedido = PedidoBase itens1 (Finito 230),
                   estrategia_pagamento = PagamentoPix,
                   estrategia_frete = FreteNormal\<rparr> \<and>
   calcular_valor_com_desconto_pagamento
     \<lparr>componente_pedido = PedidoBase itens1 (Finito 230),
      estrategia_pagamento = PagamentoPix, estrategia_frete = FreteNormal\<rparr> =
     Finito 218.5 \<and>
   calcular_frete
     \<lparr>componente_pedido = PedidoBase itens1 (Finito 230),
      estrategia_pagamento = PagamentoPix, estrategia_frete = FreteNormal\<rparr> =
     Finito 10.925 \<and>
   calcular_valor_final
     \<lparr>componente_pedido = PedidoBase itens1 (Finito 230),
      estrategia_pagamento = PagamentoPix, estrategia_frete = FreteNormal\<rparr> =
     Finito 229.425 \<and>
   calcular FreteNormal (calcular_valor (PedidoBase itens1 (Finito 230))) = Finito 11.5"
  using valor_final_desconto_mais_frete
    [of "\<lparr>componente_pedido = PedidoBase itens1 (Finito 230),
          estrategia_pagamento = PagamentoPix, estrategia_frete = FreteNormal\<rparr>"]
  by (simp add: pedido1_def itens1_soma calcular_valor_com_desconto_pagamento_def
      minus_pyfloat_def)

subsection \<open>The large-order discount\<close>

text \<open>
  C2. For every inner component \<open>x\<close>, the value of \<^verbatim>\<open>DescontoPedidoGrande(x)\<close> is
  the value of \<open>x\<close> times 0.9 when that value is above 500, and the value of \<open>x\<close>
  unchanged otherwise; an inner value of exactly 500 gets no discount.
\<close>

theorem desconto_pedido_grande_valor:
  "(calcular_valor x > Finito 500 \<longrightarrow>
      calcular_valor (DescontoPedidoGrande x) = calcular_valor x * Finito 0.9) \<and>
   (\<not> calcular_valor x > Finito 500 \<longrightarrow>
      calcular_valor (DescontoPedidoGrande x) = calcular_valor x) \<and>
   (calcular_valor x = Finito 500 \<longrightarrow>
      calcular_valor (DescontoPedidoGrande x) = Finito 500)"
  by (simp add: Let_def)

theorem desconto_pedido_grande_valor_witness:
  "calcular_valor (DescontoPedidoGrande (pedido_de 600)) = Finito 540 \<and>
   calcular_valor (DescontoPedidoGrande (pedido_de 500.01)) = Finito 450.009 \<and>
   calcular_valor (DescontoPedidoGrande (pedido_de 500)) = Finito 500 \<and>
   calcular_valor (DescontoPedidoGrande (pedido_de 499.99)) = Finito 499.99"
  using desconto_pedido_grande_valor [of "pedido_de 600"]
    desconto_pedido_grande_valor [of "pedido_de 500.01"]
    desconto_pedido_grande_valor [of "pedido_de 500"]
    desconto_pedido_grande_valor [of "pedido_de 499.99"]
  by simp

text \<open>
  C6. For every inner component \<open>x\<close>, the description of \<^verbatim>\<open>DescontoPedidoGrande(x)\<close>
  is the description of \<open>x\<close> followed by the discount note exactly when the value of
  \<open>x\<close> itself, before any discount, is above 500; otherwise it is the description of
  \<open>x\<close> unchanged. The test reads the inner value, not the decorator's own value.
\<close>

theorem desconto_pedido_grande_descricao:
  "get_descricao (DescontoPedidoGrande x) =
     (if calcular_valor x > Finito 500
      then get_descricao x @ '' + Desconto Pedido Grande (10%)''
      else get_descricao x) \<and>
   (get_descricao (DescontoPedidoGrande x) =
      get_descricao x @ '' + Desconto Pedido Grande (10%)'' \<longleftrightarrow>
    calcular_valor x > Finito 500)"
  by (simp add: Let_def)

text \<open>
  At an inner value of 520 the decorator's own value is 468, below the threshold, and
  the note is there all the same.
\<close>

theorem desconto_pedido_grande_descricao_witness:
  "calcular_valor (DescontoPedidoGrande (pedido_de 520)) = Finito 468 \<and>
   get_descricao (DescontoPedidoGrande (pedido_de 520)) =
     ''Pedido com 1 itens + Desconto Pedido Grande (10%)'' \<and>
   get_descricao (DescontoPedidoGrande (pedido_de 500)) =
     ''Pedido com 1 itens''"
  using desconto_pedido_grande_descricao [of "pedido_de 520"]
    desconto_pedido_grande_descricao [of "pedido_de 500"]
  by (simp add: str_nat_digito digito_def)

text \<open>
  C10. For every \<^verbatim>\<open>DescontoPedidoGrande\<close> around an inner component \<open>x\<close>, the two
  methods never disagree, because both take their discount branch on the same test,
  the value of \<open>x\<close> above 500: the description is that of \<open>x\<close> followed by the discount
  note exactly when that test holds; whenever the note is appended the value returned
  is the value of \<open>x\<close> times 0.9, and whenever it is not, both the value and the
  description of \<open>x\<close> are returned unchanged.
\<close>

theorem nota_e_desconto:
  "(get_descricao (DescontoPedidoGrande x) =
      get_descricao x @ '' + Desconto Pedido Grande (10%)'' \<longleftrightarrow>
    calcular_valor x > Finito 500) \<and>
   (get_descricao (DescontoPedidoGrande x) =
      get_descricao x @ '' + Desconto Pedido Grande (10%)'' \<longrightarrow>
    calcular_valor (DescontoPedidoGrande x) = calcular_valor x * Finito 0.9) \<and>
   (get_descricao (DescontoPedidoGrande x) \<noteq>
      get_descricao x @ '' + Desconto Pedido Grande (10%)'' \<longrightarrow>
    calcular_valor (DescontoPedidoGrande x) = calcular_valor x \<and>
    get_descricao (DescontoPedidoGrande x) = get_descricao x)"
  by (simp add: Let_def)

text \<open>
  Above the threshold (600), below it (400), on the empty order (0) and at an infinite
  inner value.
\<close>

theorem nota_e_desconto_witness:
  "get_descricao (DescontoPedidoGrande (pedido_de 600)) =
     get_descricao (pedido_de 600) @ '' + Desconto Pedido Grande (10%)'' \<and>
   calcular_valor (DescontoPedidoGrande (pedido_de 600)) = Finito 540 \<and>
   get_descricao (DescontoPedidoGrande (pedido_de 400)) = get_descricao (pedido_de 400) \<and>
   calcular_valor (DescontoPedidoGrande (pedido_de 400)) = Finito 400 \<and>
   get_descricao (DescontoPedidoGrande (PedidoBase [] (Finito 0))) =
     get_descricao (PedidoBase [] (Finito 0)) \<and>
   calcular_valor (DescontoPedidoGrande (PedidoBase [] (Finito 0))) = Finito 0 \<and>
   get_descricao (DescontoPedidoGrande (PedidoBase [[''valor'' \<mapsto> PyFloat MaisInf]] MaisInf)) =
     get_descricao (PedidoBase [[''valor'' \<mapsto> PyFloat MaisInf]] MaisInf) @
       '' + Desconto Pedido Grande (10%)'' \<and>
   calcular_valor (DescontoPedidoGrande (PedidoBase [[''valor'' \<mapsto> PyFloat MaisInf]] MaisInf)) =
     MaisInf"
  using nota_e_desconto [of "pedido_de 600"] nota_e_desconto [of "pedido_de 400"]
    nota_e_desconto [of "PedidoBase [] (Finito 0)"]
    nota_e_desconto [of "PedidoBase [[''valor'' \<mapsto> PyFloat MaisInf]] MaisInf"]
  by simp

subsection \<open>The gift-wrap fee and the base decorator\<close>

text \<open>
  C7. For every inner component \<open>x\<close> and every fee, the value of
  \<^verbatim>\<open>TaxaEmbalagemPresente(x, taxa)\<close> is the value of \<open>x\<close> plus the fee, with no
  threshold, and its description is always the description of \<open>x\<close> followed by the
  fee note, whatever the inner value.
\<close>

theorem taxa_embalagem_presente:
  "calcular_valor (TaxaEmbalagemPresente x taxa) = calcular_valor x + taxa \<and>
   get_descricao (TaxaEmbalagemPresente x taxa) =
     get_descricao x @ '' + Embalagem Presente (R$'' @ fmt_2f taxa @ '')'' \<and>
   get_descricao (TaxaEmbalagemPresente x taxa) \<noteq> get_descricao x"
  by simp

text \<open>An inner value of zero: the empty order, wrapped with the default fee.\<close>

theorem taxa_embalagem_presente_witness:
  "calcular_valor (PedidoBase [] (Finito 0)) = Finito 0 \<and>
   calcular_valor (TaxaEmbalagemPresente (PedidoBase [] (Finito 0)) (Finito 5)) =
     Finito 5 \<and>
   get_descricao (TaxaEmbalagemPresente (PedidoBase [] (Finito 0)) (Finito 5)) =
     ''Pedido com 0 itens + Embalagem Presente (R$5.00)''"
  using taxa_embalagem_presente [of "PedidoBase [] (Finito 0)" "Finito 5"]
  by (simp add: arredonda_par_def Let_def str_nat_digito digito_def)

text \<open>
  C9. Wrapping any component \<open>x\<close> in \<^verbatim>\<open>DecoradorPedido\<close> changes nothing: the
  wrapper's value is the value of \<open>x\<close> and its description is the description of \<open>x\<close>.
\<close>

theorem decorador_pedido_identidade:
  "calcular_valor (DecoradorPedido x) = calcular_valor x \<and>
   get_descricao (DecoradorPedido x) = get_descricao x"
  by simp

text \<open>
  C3, as amended. For every component whose value \<open>v\<close> is at most 500 and every finite
  fee such that \<open>v\<close> plus the fee is above 500, the discount around the fee gives
  \<open>(v + taxa) * 0.9\<close>, the fee around the discount gives \<open>v + taxa\<close>, and the two
  values differ.
\<close>

theorem ordem_dos_decoradores:
  assumes "calcular_valor base \<le> Finito 500"
    and "calcular_valor base + Finito t > Finito 500"
  shows "calcular_valor (DescontoPedidoGrande (TaxaEmbalagemPresente base (Finito t))) =
           (calcular_valor base + Finito t) * Finito 0.9 \<and>
         calcular_valor (TaxaEmbalagemPresente (DescontoPedidoGrande base) (Finito t)) =
           calcular_valor base + Finito t \<and>
         calcular_valor (DescontoPedidoGrande (TaxaEmbalagemPresente base (Finito t))) \<noteq>
           calcular_valor (TaxaEmbalagemPresente (DescontoPedidoGrande base) (Finito t))"
proof (cases "calcular_valor base")
  case (Finito v)
  with assms have le: "v \<le> 500" and gt: "500 < v + t" by simp_all
  from le have nao: "\<not> Finito 500 < Finito v" by simp
  have "(v + t) * (9 / 10) < v + t" using gt by simp
  then show ?thesis using Finito gt nao by (simp add: Let_def)
next
  case MaisInf
  with assms(1) show ?thesis by simp
next
  case MenosInf
  with assms(2) show ?thesis by simp
next
  case NaN
  with assms(1) show ?thesis by simp
qed

theorem ordem_dos_decoradores_witness:
  "calcular_valor (pedido_de 498) \<le> Finito 500 \<and>
   calcular_valor (pedido_de 498) + Finito 5 > Finito 500 \<and>
   calcular_valor (DescontoPedidoGrande (TaxaEmbalagemPresente (pedido_de 498) (Finito 5))) =
     Finito 452.7 \<and>
   calcular_valor (TaxaEmbalagemPresente (DescontoPedidoGrande (pedido_de 498)) (Finito 5)) =
     Finito 503 \<and>
   calcular_valor (DescontoPedidoGrande (TaxaEmbalagemPresente (pedido_de 498) (Finito 5))) \<noteq>
   calcular_valor (TaxaEmbalagemPresente (DescontoPedidoGrande (pedido_de 498)) (Finito 5))"
proof -
  have h1: "calcular_valor (pedido_de 498) \<le> Finito 500" by simp
  have h2: "calcular_valor (pedido_de 498) + Finito 5 > Finito 500" by simp
  show ?thesis
    using h1 h2 ordem_dos_decoradores [OF h1 h2] by (simp add: Let_def)
qed

text \<open>
  C3 as stated fails for an infinite fee: with a base value of 498 and
  \<^verbatim>\<open>taxa = float('inf')\<close> the threshold is crossed by the fee, and both orders of
  the decorators return infinity.
\<close>

theorem ordem_dos_decoradores_counterexample:
  "calcular_valor (pedido_de 498) \<le> Finito 500 \<and>
   calcular_valor (pedido_de 498) + MaisInf > Finito 500 \<and>
   calcular_valor (DescontoPedidoGrande (TaxaEmbalagemPresente (pedido_de 498) MaisInf)) =
     MaisInf \<and>
   calcular_valor (TaxaEmbalagemPresente (DescontoPedidoGrande (pedido_de 498)) MaisInf) =
     MaisInf \<and>
   calcular_valor (DescontoPedidoGrande (TaxaEmbalagemPresente (pedido_de 498) MaisInf)) =
   calcular_valor (TaxaEmbalagemPresente (DescontoPedidoGrande (pedido_de 498)) MaisInf)"
  by (simp add: Let_def)

subsection \<open>Payment by credit card\<close>

text \<open>
  C4. For every amount and every limit, \<^verbatim>\<open>PagamentoCredito(limite).processar(valor)\<close>
  is true exactly when the amount is strictly below the limit; an amount equal to the
  limit is rejected.
\<close>

theorem credito_aprova_abaixo_do_limite:
  "(processar (PagamentoCredito limite) valor \<longleftrightarrow> valor < limite) \<and>
   \<not> processar (PagamentoCredito limite) limite"
  by (simp add: pyfloat_less_irrefl)

theorem credito_aprova_abaixo_do_limite_witness:
  "processar PagamentoCredito_padrao (Finito 999.99) \<and>
   \<not> processar PagamentoCredito_padrao (Finito 1000) \<and>
   \<not> processar PagamentoCredito_padrao (Finito 1000.01)"
  using credito_aprova_abaixo_do_limite [of "Finito 1000" "Finito 999.99"]
    credito_aprova_abaixo_do_limite [of "Finito 1000" "Finito 1000.01"]
  by (simp add: PagamentoCredito_padrao_def)

subsection \<open>The facade\<close>

text \<open>
  C5. For every order and every state of the two subsystems,
  \<^verbatim>\<open>concluir_transacao\<close> returns true exactly when the order's payment strategy
  approves the final value; it then registers the order with \<^verbatim>\<open>SistemaEstoque\<close> and
  issues the invoice with \<^verbatim>\<open>GeradorNotaFiscal\<close> for the final value computed
  beforehand. When the strategy rejects, it returns false and neither subsystem is
  called.
\<close>

theorem concluir_transacao_resultado:
  "concluir_transacao f p =
     (if processar (estrategia_pagamento p) (calcular_valor_final p)
      then (True, f\<lparr>sistema_estoque := sistema_estoque f @ [p],
                     gerador_nota := gerador_nota f @ [(p, calcular_valor_final p)]\<rparr>)
      else (False, f))"
  by (simp add: concluir_transacao_def processar_pagamento_def registrar_pedido_def
      emitir_nota_def Let_def)

text \<open>
  An order of one item of 600 with teleport shipping costs 650: a credit limit of 1000
  approves it, a credit limit of exactly 650 rejects it.
\<close>

theorem concluir_transacao_resultado_witness:
  "concluir_transacao CheckoutFacade_init
     \<lparr>componente_pedido = pedido_de 600,
      estrategia_pagamento = PagamentoCredito (Finito 1000),
      estrategia_frete = FreteTeletransporte\<rparr> =
   (True,
    \<lparr>sistema_estoque =
       [\<lparr>componente_pedido = pedido_de 600,
         estrategia_pagamento = PagamentoCredito (Finito 1000),
         estrategia_frete = FreteTeletransporte\<rparr>],
     gerador_nota =
       [(\<lparr>componente_pedido = pedido_de 600,
          estrategia_pagamento = PagamentoCredito (Finito 1000),
          estrategia_frete = FreteTeletransporte\<rparr>, Finito 650)]\<rparr>) \<and>
   concluir_transacao CheckoutFacade_init
     \<lparr>componente_pedido = pedido_de 600,
      estrategia_pagamento = PagamentoCredito (Finito 650),
      estrategia_frete = FreteTeletransporte\<rparr> =
   (False, CheckoutFacade_init)"
  using concluir_transacao_resultado [of CheckoutFacade_init
      "\<lparr>componente_pedido = pedido_de 600,
        estrategia_pagamento = PagamentoCredito (Finito 1000),
        estrategia_frete = FreteTeletransporte\<rparr>"]
    concluir_transacao_resultado [of CheckoutFacade_init
      "\<lparr>componente_pedido = pedido_de 600,
        estrategia_pagamento = PagamentoCredito (Finito 650),
        estrategia_frete = FreteTeletransporte\<rparr>"]
  by (simp add: CheckoutFacade_init_def calcular_valor_final_def calcular_frete_def
      calcular_valor_com_desconto_pagamento_def)

subsection \<open>The second scenario of the demonstration\<close>

text \<open>
  C8. The order built from the single item of value 600.0, wrapped in
  \<^verbatim>\<open>DescontoPedidoGrande\<close> and then in \<^verbatim>\<open>TaxaEmbalagemPresente\<close> (fee 5.0), paid by
  credit card (limit 1000.0) with express shipping: the discount gives 540.0, the
  component's value is 545.0, the value after the payment discount is 545.0, the
  shipping cost is 69.5, the final value is 614.5 and the payment is approved.
\<close>

theorem cenario2:
  "pedido2 =
     Inr \<lparr>componente_pedido =
            TaxaEmbalagemPresente (DescontoPedidoGrande (PedidoBase itens2 (Finito 600)))
              (Finito 5),
          estrategia_pagamento = PagamentoCredito (Finito 1000),
          estrategia_frete = FreteExpresso\<rparr> \<and>
   (\<exists>p. pedido2 = Inr p \<and>
      calcular_valor (DescontoPedidoGrande (PedidoBase itens2 (Finito 600))) =
        Finito 540.0 \<and>
      calcular_valor (componente_pedido p) = Finito 545.0 \<and>
      calcular_valor_com_desconto_pagamento p = Finito 545.0 \<and>
      calcular_frete p = Finito 69.5 \<and>
      calcular_valor_final p = Finito 614.5 \<and>
      processar_pagamento p = True)"
  by (simp add: pedido2_def itens2_soma TaxaEmbalagemPresente_padrao_def
      PagamentoCredito_padrao_def calcular_valor_com_desconto_pagamento_def
      calcular_frete_def calcular_valor_final_def processar_pagamento_def Let_def)

end
